theory Spec2Isabelle
  imports Complex_Main "HOL-Library.AList" "HOL-Library.Multiset"
begin

section \<open>The run script: \<^verbatim>\<open>backend/run_all.ps1\<close>\<close>

text \<open>
  The script takes two switches, resolves the paths of the compose file and of the
  virtual environment's interpreter below \<^verbatim>\<open>$PSScriptRoot\<close>, throws when the
  interpreter is missing, sets \<^verbatim>\<open>$env:PURGE_DEALS_ON_START\<close> and then runs the
  services, the ingestion and the report. A path is kept as its list of components, the
  process environment as an association list, and the file system as the list of paths
  that exist. The console output of \<^verbatim>\<open>Write-Host\<close> is not part of the state.
  Lines 31 to 84 assign no environment variable; what they contribute is whether one of
  them ends the script with a terminating error (\<open>later\<close>).
\<close>

type_synonym path = "string list"

type_synonym environment = "(string \<times> string) list"

record params =
  KeepHistory :: bool
  NoOpen :: bool

datatype outcome = Finished | Thrown string

definition Join_Path :: "path \<Rightarrow> path \<Rightarrow> path" where
  "Join_Path parent child = parent @ child"

definition Test_Path :: "path list \<Rightarrow> path \<Rightarrow> bool" where
  "Test_Path fs p = (p \<in> set fs)"

fun path_str :: "path \<Rightarrow> string" where
  "path_str [] = []"
| "path_str [c] = c"
| "path_str (c # d # cs) = c @ CHR 0x5C # path_str (d # cs)"

definition run_all ::
  "params \<Rightarrow> path \<Rightarrow> path list \<Rightarrow> string option \<Rightarrow> environment \<Rightarrow> outcome \<times> environment" where
  "run_all p PSScriptRoot fs later env =
     (let backend = PSScriptRoot;
          python = Join_Path backend [''.venv'', ''Scripts'', ''python.exe'']
      in if \<not> Test_Path fs python
         then (Thrown (''Venv python not found at: '' @ path_str python
                 @ '' (did you create .venv?)''), env)
         else
           let env' = (if KeepHistory p
                       then AList.update ''PURGE_DEALS_ON_START'' ''0'' env
                       else AList.update ''PURGE_DEALS_ON_START'' ''1'' env)
           in (case later of Some msg \<Rightarrow> (Thrown msg, env') | None \<Rightarrow> (Finished, env')))"

section \<open>The frontend's API client: \<^verbatim>\<open>lib/api\<close>\<close>

text \<open>
  A rejected promise and a \<^verbatim>\<open>throw\<close> are the left injection of a sum. \<open>fetch\<close>
  rejects with a \<open>TypeError\<close> when the network fails, \<^verbatim>\<open>res.json()\<close> rejects with
  a \<open>SyntaxError\<close> on a body that is not JSON, and the client itself throws
  \<^verbatim>\<open>new Error(msg)\<close>. Each client function issues at most one request and then
  consumes the settled promise of that request, so it is modelled as a function of the
  settled promise that returns the request it issued together with its own result.
\<close>

datatype js_error = Error string | TypeError | SyntaxError

record 'a response =
  ok :: bool
  json :: "js_error + 'a"

type_synonym 'a settled = "js_error + 'a response"

record URL =
  href :: string
  searchParams :: "(string \<times> string) list"

record request =
  url :: URL
  cache :: string

datatype sort_key = Hot | Deal

fun sort_str :: "sort_key \<Rightarrow> string" where
  "sort_str Hot = ''hot''"
| "sort_str Deal = ''deal''"

text \<open>\<^verbatim>\<open>process.env.NEXT_PUBLIC_API_BASE || "http://127.0.0.1:8000"\<close>: an unset or
  empty variable is falsy.\<close>

definition API_BASE :: "string option \<Rightarrow> string" where
  "API_BASE NEXT_PUBLIC_API_BASE =
     (case NEXT_PUBLIC_API_BASE of
        None \<Rightarrow> ''http://127.0.0.1:8000''
      | Some s \<Rightarrow> if s = [] then ''http://127.0.0.1:8000'' else s)"

text \<open>\<^verbatim>\<open>URLSearchParams.set\<close>: the first pair of that name takes the value and the
  later ones are removed; with no such pair, the new pair is appended.\<close>

fun searchParams_set :: "string \<Rightarrow> string \<Rightarrow> (string \<times> string) list \<Rightarrow> (string \<times> string) list" where
  "searchParams_set k v [] = [(k, v)]"
| "searchParams_set k v ((k', v') # ps) =
     (if k' = k then (k, v) # filter (\<lambda>q. fst q \<noteq> k) ps
      else (k', v') # searchParams_set k v ps)"


text \<open>
  The URL constructor belongs to the platform, not to the sources, so \<open>fetchDeals\<close>
  takes it as a parameter: on a string it either returns the parsed URL, whose
  \<open>searchParams\<close> are those of the query the string already carries, or throws a
  \<open>TypeError\<close>. In the \<open>URL\<close> record \<open>href\<close> is the URL without its query. When the
  constructor throws, \<open>fetchDeals\<close> throws with it and issues no request.
\<close>

definition fetchDeals ::
  "(string \<Rightarrow> js_error + URL) \<Rightarrow> string \<Rightarrow> string option \<Rightarrow> sort_key option \<Rightarrow> 'a settled
     \<Rightarrow> request option \<times> (js_error + 'a)" where
  "fetchDeals new_URL base category sort_arg settled =
     (let sort' = (case sort_arg of None \<Rightarrow> Hot | Some s \<Rightarrow> s)
      in case new_URL (base @ ''/api/deals'') of
           Inl e \<Rightarrow> (None, Inl e)
         | Inr u0 \<Rightarrow>
             let u1 = u0\<lparr>searchParams := searchParams_set ''limit'' ''100'' (searchParams u0)\<rparr>;
                 u2 = u1\<lparr>searchParams := searchParams_set ''sort'' (sort_str sort') (searchParams u1)\<rparr>;
                 u3 = (case category of
                         None \<Rightarrow> u2
                       | Some c \<Rightarrow>
                           if c \<noteq> []
                           then u2\<lparr>searchParams := searchParams_set ''category'' c (searchParams u2)\<rparr>
                           else u2)
             in (Some \<lparr>url = u3, cache = ''no-store''\<rparr>,
                 case settled of
                   Inl e \<Rightarrow> Inl e
                 | Inr res \<Rightarrow> if \<not> ok res then Inl (Error ''Failed to load deals'') else json res))"

text \<open>A URL constructor given by the table of the strings it accepts, for the examples.\<close>

definition URL_table :: "(string \<times> URL) list \<Rightarrow> string \<Rightarrow> js_error + URL" where
  "URL_table known s = (case map_of known s of None \<Rightarrow> Inl TypeError | Some u \<Rightarrow> Inr u)"

definition fetchDeal :: "string \<Rightarrow> string \<Rightarrow> 'a settled \<Rightarrow> request \<times> (js_error + 'a)" where
  "fetchDeal base asin settled =
     (\<lparr>url = \<lparr>href = base @ ''/api/deal/'' @ asin, searchParams = []\<rparr>, cache = ''no-store''\<rparr>,
      case settled of
        Inl e \<Rightarrow> Inl e
      | Inr res \<Rightarrow> if \<not> ok res then Inl (Error ''Failed to load deal'') else json res)"


section \<open>The frontend's pages\<close>

text \<open>
  The payload of the read API is untyped in the source (\<^verbatim>\<open>d: any\<close>); here it is the
  record of the fields the pages read. A field that the API may leave out or send as
  \<^verbatim>\<open>null\<close> holds \<open>Undefined\<close>, \<open>Null\<close> or a value.

  JavaScript numbers are doubles. Their arithmetic and their printing belong to the
  platform and are a parameter of the pages: the literals \<open>0\<close> and \<open>100\<close>, \<open>NaN\<close>, the
  product, \<^verbatim>\<open>Math.round\<close>, \<^verbatim>\<open>toFixed\<close>, the conversion to a string and the
  numbers that count as false in a condition.
\<close>

datatype 'a nullable = Null | Undefined | Value 'a

record 'n numbers =
  zero_lit :: 'n
  hundred_lit :: 'n
  NaN :: 'n
  multiply :: "'n \<Rightarrow> 'n \<Rightarrow> 'n"
  Math_round_of :: "'n \<Rightarrow> 'n"
  toFixed_of :: "nat \<Rightarrow> 'n \<Rightarrow> string"
  ToString_of :: "'n \<Rightarrow> string"
  falsy_num :: "'n \<Rightarrow> bool"

record 'n deal_item =
  asin :: string
  category :: string
  title :: "string nullable"
  brand :: "string nullable"
  amazon_url :: "string nullable"
  price_current :: "'n nullable"
  price_median_90d :: "'n nullable"
  discount_pct_90d :: "'n nullable"
  confidence :: "'n nullable"
  score :: "'n nullable"
  hot_score :: "'n nullable"
  demand_score :: "'n nullable"
  sales_rank_current :: "'n nullable"
  rating :: "'n nullable"
  review_count :: "'n nullable"

record 'n deal_list =
  items :: "'n deal_item list nullable"

subsection \<open>Evaluation of the expressions of a page\<close>

text \<open>
  The evaluation of an expression either yields a value or throws, and it records
  whether the language converted a \<^verbatim>\<open>null\<close> or \<^verbatim>\<open>undefined\<close> operand to a number
  on its own: \<^verbatim>\<open>null\<close> becomes \<open>0\<close> and \<^verbatim>\<open>undefined\<close> becomes \<open>NaN\<close> under an
  arithmetic operator and under \<^verbatim>\<open>Math.round\<close>. A method call on \<^verbatim>\<open>null\<close> or
  \<^verbatim>\<open>undefined\<close> throws a \<open>TypeError\<close>.
\<close>

type_synonym 'a js = "(js_error + 'a) \<times> bool"

definition js_return :: "'a \<Rightarrow> 'a js" where
  "js_return x = (Inr x, False)"

definition js_throw :: "js_error \<Rightarrow> 'a js" where
  "js_throw e = (Inl e, False)"

definition js_bind :: "'a js \<Rightarrow> ('a \<Rightarrow> 'b js) \<Rightarrow> 'b js" where
  "js_bind m f =
     (case fst m of
        Inl e \<Rightarrow> (Inl e, snd m)
      | Inr x \<Rightarrow> (fst (f x), snd m \<or> snd (f x)))"

definition implicit_conversion :: "'a js \<Rightarrow> bool" where
  "implicit_conversion m = snd m"

definition throws :: "'a js \<Rightarrow> bool" where
  "throws m = (case fst m of Inl e \<Rightarrow> True | Inr x \<Rightarrow> False)"

text \<open>\<^verbatim>\<open>xs.map(f)\<close>, for an \<open>f\<close> that is evaluated on each element in turn.\<close>

fun js_map :: "('a \<Rightarrow> 'b js) \<Rightarrow> 'a list \<Rightarrow> 'b list js" where
  "js_map f [] = js_return []"
| "js_map f (x # xs) = js_bind (f x) (\<lambda>y. js_bind (js_map f xs) (\<lambda>ys. js_return (y # ys)))"

text \<open>The conversion that the language applies to the operand of an arithmetic operator
  and of \<^verbatim>\<open>Math.round\<close>.\<close>

definition ToNumber :: "'n numbers \<Rightarrow> 'n nullable \<Rightarrow> 'n js" where
  "ToNumber P v =
     (case v of
        Value x \<Rightarrow> (Inr x, False)
      | Null \<Rightarrow> (Inr (zero_lit P), True)
      | Undefined \<Rightarrow> (Inr (NaN P), True))"


definition js_times :: "'n numbers \<Rightarrow> 'n nullable \<Rightarrow> 'n nullable \<Rightarrow> 'n js" where
  "js_times P a b =
     js_bind (ToNumber P a) (\<lambda>x. js_bind (ToNumber P b) (\<lambda>y. js_return (multiply P x y)))"

definition Math_round :: "'n numbers \<Rightarrow> 'n nullable \<Rightarrow> 'n js" where
  "Math_round P v = js_bind (ToNumber P v) (\<lambda>x. js_return (Math_round_of P x))"

definition toFixed :: "'n numbers \<Rightarrow> nat \<Rightarrow> 'n nullable \<Rightarrow> string js" where
  "toFixed P f v =
     (case v of
        Value x \<Rightarrow> js_return (toFixed_of P f x)
      | Null \<Rightarrow> js_throw TypeError
      | Undefined \<Rightarrow> js_throw TypeError)"

text \<open>\<^verbatim>\<open>a ?? b\<close>.\<close>

definition nullish :: "'a nullable \<Rightarrow> 'a nullable \<Rightarrow> 'a nullable" where
  "nullish a b = (case a of Value x \<Rightarrow> Value x | Null \<Rightarrow> b | Undefined \<Rightarrow> b)"

text \<open>\<^verbatim>\<open>x === null || x === undefined\<close>.\<close>

definition is_nullish :: "'a nullable \<Rightarrow> bool" where
  "is_nullish x = (case x of Value v \<Rightarrow> False | Null \<Rightarrow> True | Undefined \<Rightarrow> True)"





subsection \<open>The top page\<close>

definition pct :: "'n numbers \<Rightarrow> 'n nullable \<Rightarrow> string js" where
  "pct P x =
     (if is_nullish x then js_return ''-''
      else js_bind (js_times P x (Value (hundred_lit P))) (\<lambda>y.
           js_bind (Math_round P (Value y)) (\<lambda>r.
           js_return (ToString_of P r @ ''%''))))"

record query =
  sort_param :: "string option"

record top_row =
  row_hot :: string
  row_deal :: string
  row_demand :: "string option"
  row_now :: string
  row_typical :: string
  row_drop :: string
  row_confidence :: string

record page_view =
  caption :: string
  hot_weight :: nat
  deal_weight :: nat
  rows :: "top_row list"

text \<open>\<^verbatim>\<open>searchParams?.sort\<close>.\<close>

definition query_sort :: "query option \<Rightarrow> string option" where
  "query_sort searchParams' = (case searchParams' of None \<Rightarrow> None | Some q \<Rightarrow> sort_param q)"

definition Page_sort :: "query option \<Rightarrow> sort_key" where
  "Page_sort searchParams' = (if query_sort searchParams' = Some ''deal'' then Deal else Hot)"

definition Page_row :: "'n numbers \<Rightarrow> 'n deal_item \<Rightarrow> top_row js" where
  "Page_row P d =
     js_bind (Math_round P (nullish (hot_score d) (nullish (score d) (Value (zero_lit P))))) (\<lambda>hot.
     js_bind (Math_round P (nullish (score d) (Value (zero_lit P)))) (\<lambda>deal.
     js_bind (if \<not> is_nullish (demand_score d)
              then js_bind (Math_round P (nullish (demand_score d) (Value (zero_lit P))))
                     (\<lambda>m. js_return (Some (ToString_of P m)))
              else js_return None) (\<lambda>demand.
     js_bind (toFixed P 2 (nullish (price_current d) (Value (zero_lit P)))) (\<lambda>now.
     js_bind (toFixed P 2 (nullish (price_median_90d d) (Value (zero_lit P)))) (\<lambda>typical.
     js_bind (pct P (discount_pct_90d d)) (\<lambda>drop.
     js_bind (Math_round P (nullish (confidence d) (Value (zero_lit P)))) (\<lambda>conf.
     js_return
       \<lparr>row_hot = ToString_of P hot, row_deal = ToString_of P deal, row_demand = demand,
        row_now = now, row_typical = typical, row_drop = drop,
        row_confidence = ToString_of P conf\<rparr>)))))))"

definition Page ::
  "'n numbers \<Rightarrow> (string \<Rightarrow> js_error + URL) \<Rightarrow> string \<Rightarrow> query option \<Rightarrow> 'n deal_list settled
     \<Rightarrow> request option \<times> page_view js" where
  "Page P new_URL base searchParams' settled =
     (let sort' = Page_sort searchParams';
          (req, r) = fetchDeals new_URL base None (Some sort') settled
      in (req,
          case r of
            Inl e \<Rightarrow> js_throw e
          | Inr data \<Rightarrow>
              js_bind (js_map (Page_row P) (case items data of Value xs \<Rightarrow> xs | Null \<Rightarrow> [] | Undefined \<Rightarrow> []))
                (\<lambda>rendered.
                   js_return
                     \<lparr>caption = (if sort' = Hot
                                 then ''Sorted by Hot Score (deal quality + demand).''
                                 else ''Sorted by Deal Score (discount strength + price stability).''),
                      hot_weight = (if sort' = Hot then 700 else 400),
                      deal_weight = (if sort' = Deal then 700 else 400),
                      rows = rendered\<rparr>)))"

subsection \<open>The category page\<close>




subsection \<open>The deal page\<close>






text \<open>A payload item of a product without price history: every optional field is
  \<^verbatim>\<open>null\<close>.\<close>

definition no_history_item :: "'n deal_item" where
  "no_history_item =
     \<lparr>asin = ''B000000000'', category = ''home'', title = Value ''Kettle'', brand = Null,
      amazon_url = Value ''https://www.amazon.co.uk/dp/B000000000'',
      price_current = Null, price_median_90d = Null, discount_pct_90d = Null,
      confidence = Null, score = Null, hot_score = Null, demand_score = Null,
      sales_rank_current = Null, rating = Null, review_count = Null\<rparr>"

section \<open>The scoring pipeline\<close>

text \<open>
  The ingestion-and-scoring pipeline (the Statistics Engine, the Score Composer and the
  Snapshot Writer) is not among the source files: only its callers are, the run script
  that starts \<^verbatim>\<open>app.ingestion\<close> and the frontend that reads what it stored. The
  definitions of this section are therefore written from the specification.
\<close>

subsection \<open>Statistics Engine\<close>

text \<open>
  Modelled from the spec: the PriceSeries of section 3, a sequence of
  \<open>(timestamp, price)\<close> samples that may be empty. The price is an exact rational; the
  sentinel that marks an unavailable price is a negative number.
\<close>

type_synonym PriceSeries = "(int \<times> rat) list"

text \<open>
  Modelled from the spec: the configurable constants of section 4.2, the length of the
  trailing window and the minimum sample count below which the median is undefined.
\<close>

record stats_config =
  windowLength :: int
  minSamples :: nat

text \<open>Modelled from the spec: the output of the Statistics Engine (section 4.2), without
  the stability measure.\<close>

record stats =
  priceCurrent :: "rat option"
  priceMedian90d :: "rat option"
  discountPct90d :: "rat option"

text \<open>Modelled from the spec: the prices of the samples within the trailing window that
  ends at \<open>now\<close> (section 4.2).\<close>

definition inWindow :: "stats_config \<Rightarrow> int \<Rightarrow> PriceSeries \<Rightarrow> rat list" where
  "inWindow cfg now series =
     map snd (filter (\<lambda>smp. now - windowLength cfg \<le> fst smp \<and> fst smp \<le> now) series)"

text \<open>Modelled from the spec: the median of a sample, the middle value in ascending
  order, or the mean of the two middle values of an even count; undefined on no sample.\<close>

definition median :: "rat list \<Rightarrow> rat option" where
  "median xs =
     (let s = sort xs; n = length s
      in if n = 0 then None
         else if odd n then Some (s ! (n div 2))
         else Some ((s ! (n div 2 - 1) + s ! (n div 2)) / 2))"

text \<open>Modelled from the spec: \<open>priceCurrent\<close> is the latest sample's price
  (section 4.2), \<^verbatim>\<open>null\<close> on the empty series (section 8).\<close>

definition latestPrice :: "PriceSeries \<Rightarrow> rat option" where
  "latestPrice series = (case series of [] \<Rightarrow> None | _ \<Rightarrow> Some (snd (last series)))"

text \<open>Modelled from the spec: \<open>priceMedian90d\<close> is the median over the samples in the
  window, undefined when fewer than the minimum sample count exist (section 4.2).\<close>

definition windowMedian :: "stats_config \<Rightarrow> int \<Rightarrow> PriceSeries \<Rightarrow> rat option" where
  "windowMedian cfg now series =
     (let w = inWindow cfg now series
      in if length w < minSamples cfg then None else median w)"

text \<open>Modelled from the spec: \<open>discountPct90d\<close> is
  \<open>(priceMedian90d - priceCurrent) / priceMedian90d\<close> clamped to at most 1 (section 3),
  undefined when the median is undefined or not positive (section 4.2).\<close>

definition discount :: "rat option \<Rightarrow> rat option \<Rightarrow> rat option" where
  "discount current med =
     (case med of
        None \<Rightarrow> None
      | Some m \<Rightarrow>
          if m \<le> 0 then None
          else (case current of None \<Rightarrow> None | Some c \<Rightarrow> Some (min 1 ((m - c) / m))))"

text \<open>Modelled from the spec: the Statistics Engine of section 4.2.\<close>

definition statisticsEngine :: "stats_config \<Rightarrow> int \<Rightarrow> PriceSeries \<Rightarrow> stats" where
  "statisticsEngine cfg now series =
     (let current = latestPrice series; med = windowMedian cfg now series
      in \<lparr>priceCurrent = current, priceMedian90d = med, discountPct90d = discount current med\<rparr>)"

text \<open>
  Modelled from the spec: the statistical median that section 8 compares \<open>priceMedian90d\<close>
  with, stated with no reference to an order of the sample. The value \<open>a\<close> is the
  \<open>k\<close>-th smallest (counting from 0) when at most \<open>k\<close> values lie strictly below it
  and more than \<open>k\<close> values lie at or below it.
\<close>

definition kth_smallest :: "rat list \<Rightarrow> nat \<Rightarrow> rat \<Rightarrow> bool" where
  "kth_smallest xs k a \<longleftrightarrow>
     a \<in> set xs \<and> length (filter (\<lambda>x. x < a) xs) \<le> k \<and> k < length (filter (\<lambda>x. x \<le> a) xs)"

text \<open>Modelled from the spec: the statistical median is the mean of the two middle order
  statistics, which coincide for an odd count.\<close>

definition statistical_median :: "rat list \<Rightarrow> rat \<Rightarrow> bool" where
  "statistical_median xs m \<longleftrightarrow>
     (\<exists>a b. kth_smallest xs ((length xs - 1) div 2) a \<and> kth_smallest xs (length xs div 2) b
        \<and> m = (a + b) / 2)"

subsection \<open>Score Composer\<close>

text \<open>
  Modelled from the spec: the Score Composer of section 4.5. The weighted combination of
  discount, stability and confidence, the floor of the deal score and the blend with the
  demand score are tunable, so they are the fields of the composer's configuration.
\<close>

record composer_config =
  combine :: "rat \<Rightarrow> rat \<Rightarrow> rat \<Rightarrow> rat"
  scoreFloor :: rat
  blend :: "rat \<Rightarrow> rat \<Rightarrow> rat"

text \<open>Modelled from the spec: the two outputs of the Score Composer (section 4.5). The deal score
  is defined, at its floor, without a discount; the hot score is the deal score blended with
  the demand score when there is one and the deal score unchanged otherwise.\<close>

definition scoreComposer ::
  "composer_config \<Rightarrow> rat option \<Rightarrow> rat \<Rightarrow> rat \<Rightarrow> rat option \<Rightarrow> rat \<times> rat" where
  "scoreComposer cfg discountPct stability' confidence' demandScore =
     (let score' = (case discountPct of
                      None \<Rightarrow> scoreFloor cfg
                    | Some d \<Rightarrow> combine cfg d stability' confidence');
          hotScore = (case demandScore of None \<Rightarrow> score' | Some dm \<Rightarrow> blend cfg score' dm)
      in (score', hotScore))"

subsection \<open>Snapshot Writer\<close>

text \<open>
  Modelled from the spec: the DealRecord of section 3, with its correlation key, its
  \<open>isActive\<close> flag and, as one component, the value fields that are never updated in
  place.
\<close>

record 'v DealRecord =
  recAsin :: string
  recCategory :: string
  recValues :: 'v
  isActive :: bool

text \<open>Modelled from the spec: ASIN and category together are the key of a record (section 3).\<close>

definition recKey :: "'v DealRecord \<Rightarrow> string \<times> string" where
  "recKey r = (recAsin r, recCategory r)"

text \<open>Modelled from the spec: the active set of the store, the records whose \<open>isActive\<close> flag is
  set (sections 3 and 8).\<close>

definition activeSet :: "'v DealRecord list \<Rightarrow> 'v DealRecord set" where
  "activeSet table = set (filter isActive table)"

text \<open>Modelled from the spec: the writes of one cycle (sections 3 and 4.6): a record is
  inserted as active, the active record of a key is marked inactive, or, in purge mode,
  all prior rows are deleted.\<close>

datatype 'v row_write = Insert "'v DealRecord" | Deactivate "string \<times> string" | DeleteAll

text \<open>Modelled from the spec: the effect of one write on a table (sections 3 and 4.6).\<close>

fun apply_write :: "'v row_write \<Rightarrow> 'v DealRecord list \<Rightarrow> 'v DealRecord list" where
  "apply_write (Insert r) table = table @ [r\<lparr>isActive := True\<rparr>]"
| "apply_write (Deactivate k) table =
     map (\<lambda>r. if recKey r = k then r\<lparr>isActive := False\<rparr> else r) table"
| "apply_write DeleteAll table = []"

text \<open>Modelled from the spec: the generation of section 4.6. The previously active
  records whose key is not in the new set are marked inactive (or, in purge mode, all
  prior rows are deleted); each new record supersedes the active record of its key and is
  inserted as active.\<close>

definition cycle_writes :: "bool \<Rightarrow> 'v DealRecord list \<Rightarrow> 'v DealRecord list \<Rightarrow> 'v row_write list" where
  "cycle_writes purge table new =
     (if purge then [DeleteAll]
      else map Deactivate
             (filter (\<lambda>k. k \<notin> set (map recKey new)) (map recKey (filter isActive table))))
     @ concat (map (\<lambda>r. [Deactivate (recKey r), Insert r]) new)"

text \<open>Modelled from the spec: the store during a commit (section 5). Readers read the
  committed table; the transaction writes to its own working table, which replaces the
  committed one when the commit completes and is discarded when it rolls back.\<close>

record 'v store =
  committed :: "'v DealRecord list"
  working :: "'v DealRecord list"

text \<open>Modelled from the spec: the \<open>CommitFailure\<close> of the error taxonomy (section 7).\<close>

datatype commit_error = CommitFailure

text \<open>Modelled from the spec: what a reader observes, the active records of the committed table
  (section 5).\<close>

definition read_active :: "'v store \<Rightarrow> 'v DealRecord set" where
  "read_active st = activeSet (committed st)"

text \<open>Modelled from the spec: a rollback discards the working table (section 7).\<close>

definition rollback :: "'v store \<Rightarrow> 'v store" where
  "rollback st = st\<lparr>working := committed st\<rparr>"

text \<open>Modelled from the spec: the completion makes the working table the committed one
  (section 5).\<close>

definition complete :: "'v store \<Rightarrow> 'v store" where
  "complete st = st\<lparr>committed := working st\<rparr>"

text \<open>Modelled from the spec: the transaction, one write at a time (sections 5 and 7).
  A failure is injected before step \<open>k\<close>, where the steps are the writes in order and,
  last, the completion. The result is the sequence of the stores that a reader can meet,
  one after each step, and whether the commit failed.\<close>

fun transaction ::
  "'v row_write list \<Rightarrow> nat option \<Rightarrow> 'v store \<Rightarrow> 'v store list \<times> bool" where
  "transaction ws (Some 0) st = ([rollback st], True)"
| "transaction [] _ st = ([complete st], False)"
| "transaction (w # ws) fault st =
     (let st' = st\<lparr>working := apply_write w (working st)\<rparr>;
          (trace, failed) = transaction ws (map_option (\<lambda>k. k - 1) fault) st'
      in (st' # trace, failed))"

text \<open>Modelled from the spec: the Snapshot Writer of section 4.6. It returns the outcome
  of the cycle, the table that is committed afterwards and the stores met on the way.\<close>

definition snapshotWriter ::
  "bool \<Rightarrow> 'v DealRecord list \<Rightarrow> nat option \<Rightarrow> 'v DealRecord list
     \<Rightarrow> (commit_error + unit) \<times> 'v DealRecord list \<times> 'v store list" where
  "snapshotWriter purge new fault table =
     (let st0 = \<lparr>committed = table, working = table\<rparr>;
          (trace, failed) = transaction (cycle_writes purge table new) fault st0
      in (if failed then Inl CommitFailure else Inr (), committed (last trace), st0 # trace))"

text \<open>Modelled from the spec: the complete new generation, the table of a cycle whose
  writes all took effect (section 4.6).\<close>

definition new_generation :: "bool \<Rightarrow> 'v DealRecord list \<Rightarrow> 'v DealRecord list \<Rightarrow> 'v DealRecord list" where
  "new_generation purge new table = fold apply_write (cycle_writes purge table new) table"

section \<open>Properties of the run script\<close>

text \<open>
  C6: when the interpreter of the virtual environment exists, so that the script gets
  past its check, the script leaves \<^verbatim>\<open>PURGE_DEALS_ON_START\<close> set to \<open>"1"\<close> for an
  invocation without \<^verbatim>\<open>-KeepHistory\<close> and to \<open>"0"\<close> exactly for an invocation with
  it, whatever the variable held before and whether or not a later step throws.
\<close>

theorem run_all_purge_mode:
  assumes "Test_Path fs (Join_Path PSScriptRoot [''.venv'', ''Scripts'', ''python.exe''])"
  shows "map_of (snd (run_all p PSScriptRoot fs later env)) ''PURGE_DEALS_ON_START''
           = Some (if KeepHistory p then ''0'' else ''1'')
         \<and> (map_of (snd (run_all p PSScriptRoot fs later env)) ''PURGE_DEALS_ON_START'' = Some ''0''
              \<longleftrightarrow> KeepHistory p)"
  using assms by (simp add: run_all_def Let_def update_conv' split: option.split)

theorem run_all_purge_mode_witness:
  "map_of (snd (run_all \<lparr>KeepHistory = False, NoOpen = False\<rparr> [''C:'', ''deals'', ''backend'']
        [[''C:'', ''deals'', ''backend'', ''.venv'', ''Scripts'', ''python.exe'']] None []))
     ''PURGE_DEALS_ON_START'' = Some ''1''
   \<and> map_of (snd (run_all \<lparr>KeepHistory = True, NoOpen = False\<rparr> [''C:'', ''deals'', ''backend'']
        [[''C:'', ''deals'', ''backend'', ''.venv'', ''Scripts'', ''python.exe'']]
        (Some ''Postgres not ready after 60 attempts.'') [(''PURGE_DEALS_ON_START'', ''1'')]))
     ''PURGE_DEALS_ON_START'' = Some ''0''"
proof -
  let ?root = "[''C:'', ''deals'', ''backend'']"
  let ?fs = "[[''C:'', ''deals'', ''backend'', ''.venv'', ''Scripts'', ''python.exe'']]"
  have h: "Test_Path ?fs (Join_Path ?root [''.venv'', ''Scripts'', ''python.exe''])"
    by (simp add: Test_Path_def Join_Path_def)
  from run_all_purge_mode [OF h, of "\<lparr>KeepHistory = False, NoOpen = False\<rparr>" None "[]"]
       run_all_purge_mode [OF h, of "\<lparr>KeepHistory = True, NoOpen = False\<rparr>"
         "Some ''Postgres not ready after 60 attempts.''" "[(''PURGE_DEALS_ON_START'', ''1'')]"]
  show ?thesis by simp
qed

text \<open>
  Without the interpreter the script throws at its check, before the assignment: an
  invocation without \<^verbatim>\<open>-KeepHistory\<close>, started where the variable is unset, ends
  with the variable still unset.
\<close>

theorem run_all_missing_venv_counterexample:
  "map_of (snd (run_all \<lparr>KeepHistory = False, NoOpen = False\<rparr> [''C:'', ''deals'', ''backend''] [] None []))
     ''PURGE_DEALS_ON_START'' = None"
  by (simp add: run_all_def Test_Path_def Join_Path_def)

section \<open>Properties of the API client\<close>

lemma map_of_filter_other:
  "x \<noteq> k \<Longrightarrow> map_of (filter (\<lambda>q. fst q \<noteq> k) ps) x = map_of ps x"
  by (induction ps) auto

lemma map_of_searchParams_set:
  "map_of (searchParams_set k v ps) = (map_of ps)(k \<mapsto> v)"
proof (induction ps)
  case Nil
  then show ?case by simp
next
  case (Cons p ps)
  obtain k' v' where p: "p = (k', v')" by (cases p)
  show ?case
  proof (cases "k' = k")
    case True
    have "map_of ((k, v) # filter (\<lambda>q. fst q \<noteq> k) ps) x = ((map_of ((k, v') # ps))(k \<mapsto> v)) x" for x
      by (cases "x = k") (simp_all add: map_of_filter_other)
    then show ?thesis using True p by (simp add: fun_eq_iff)
  next
    case False
    then show ?thesis using Cons p by (auto simp: fun_eq_iff)
  qed
qed

text \<open>
  C7: when the URL constructor throws on \<^verbatim>\<open>`${API_BASE}/api/deals`\<close>, \<open>fetchDeals\<close>
  throws the same error and requests nothing. In every other call it requests the URL
  that the constructor made, with \<open>limit\<close> set to \<open>100\<close>, with \<open>sort\<close> set to \<open>hot\<close> or
  \<open>deal\<close>, \<open>hot\<close> when no sort argument is given, and with \<open>category\<close> set to the
  category argument exactly when that argument is a non-empty string; every other
  parameter of the request, a \<open>category\<close> included, is one that the query of
  \<open>API_BASE\<close> already carried, so that for an \<open>API_BASE\<close> without a query these are
  the only parameters.
\<close>

theorem fetchDeals_request:
  "case new_URL (base @ ''/api/deals'') of
     Inl e \<Rightarrow> fetchDeals new_URL base category_arg sort_arg settled = (None, Inl e)
   | Inr u0 \<Rightarrow>
       (\<exists>req. fst (fetchDeals new_URL base category_arg sort_arg settled) = Some req
          \<and> snd (fetchDeals new_URL base category_arg sort_arg settled)
              = (case settled of
                   Inl e \<Rightarrow> Inl e
                 | Inr res \<Rightarrow> if ok res then json res else Inl (Error ''Failed to load deals''))
          \<and> href (url req) = href u0 \<and> cache req = ''no-store''
          \<and> map_of (searchParams (url req)) ''limit'' = Some ''100''
          \<and> map_of (searchParams (url req)) ''sort''
              = Some (case sort_arg of None \<Rightarrow> ''hot'' | Some Hot \<Rightarrow> ''hot'' | Some Deal \<Rightarrow> ''deal'')
          \<and> map_of (searchParams (url req)) ''category''
              = (case category_arg of
                   None \<Rightarrow> map_of (searchParams u0) ''category''
                 | Some c \<Rightarrow> if c = [] then map_of (searchParams u0) ''category'' else Some c)
          \<and> (\<forall>k. k \<noteq> ''limit'' \<and> k \<noteq> ''sort'' \<and> k \<noteq> ''category''
                \<longrightarrow> map_of (searchParams (url req)) k = map_of (searchParams u0) k)
          \<and> (searchParams u0 = []
                \<longrightarrow> searchParams (url req)
                    = [(''limit'', ''100''),
                       (''sort'', case sort_arg of None \<Rightarrow> ''hot'' | Some Hot \<Rightarrow> ''hot'' | Some Deal \<Rightarrow> ''deal'')]
                      @ (case category_arg of
                           None \<Rightarrow> []
                         | Some c \<Rightarrow> if c = [] then [] else [(''category'', c)])))"
  by (auto simp: fetchDeals_def Let_def map_of_searchParams_set
           split: sum.split option.split sort_key.split)

theorem fetchDeals_request_witness:
  "fetchDeals
      (URL_table [(''http://127.0.0.1:8000/api/deals'',
                   \<lparr>href = ''http://127.0.0.1:8000/api/deals'', searchParams = []\<rparr>)])
      (API_BASE None) (Some ''toys'') (Some Deal) (Inl TypeError :: unit settled)
    = (Some \<lparr>url = \<lparr>href = ''http://127.0.0.1:8000/api/deals'',
                     searchParams = [(''limit'', ''100''), (''sort'', ''deal''), (''category'', ''toys'')]\<rparr>,
             cache = ''no-store''\<rparr>,
       Inl TypeError)
   \<and> fetchDeals (URL_table []) ''127.0.0.1:8000'' (Some ''toys'') None (Inl TypeError :: unit settled)
    = (None, Inl TypeError)
   \<and> fetchDeals
      (URL_table [(''http://127.0.0.1:8000?limit=5/api/deals'',
                   \<lparr>href = ''http://127.0.0.1:8000/'', searchParams = [(''limit'', ''5/api/deals'')]\<rparr>)])
      ''http://127.0.0.1:8000?limit=5'' None None (Inl TypeError :: unit settled)
    = (Some \<lparr>url = \<lparr>href = ''http://127.0.0.1:8000/'',
                     searchParams = [(''limit'', ''100''), (''sort'', ''hot'')]\<rparr>,
             cache = ''no-store''\<rparr>,
       Inl TypeError)"
  using fetchDeals_request [where new_URL = "URL_table [(''http://127.0.0.1:8000/api/deals'',
                   \<lparr>href = ''http://127.0.0.1:8000/api/deals'', searchParams = []\<rparr>)]"
          and base = "API_BASE None" and category_arg = "Some ''toys''" and sort_arg = "Some Deal"
          and settled = "Inl TypeError :: unit settled"]
        fetchDeals_request [where new_URL = "URL_table []"
          and base = "''127.0.0.1:8000''" and category_arg = "Some ''toys''" and sort_arg = None
          and settled = "Inl TypeError :: unit settled"]
        fetchDeals_request [where new_URL = "URL_table [(''http://127.0.0.1:8000?limit=5/api/deals'',
                   \<lparr>href = ''http://127.0.0.1:8000/'', searchParams = [(''limit'', ''5/api/deals'')]\<rparr>)]"
          and base = "''http://127.0.0.1:8000?limit=5''" and category_arg = None and sort_arg = None
          and settled = "Inl TypeError :: unit settled"]
  by (simp add: fetchDeals_def URL_table_def API_BASE_def Let_def)

text \<open>
  The empty string is a category argument, and it is falsy: the request carries no
  \<open>category\<close> parameter. And on an \<open>API_BASE\<close> without a scheme the constructor throws:
  the call requests nothing.
\<close>

theorem fetchDeals_category_counterexample:
  "fetchDeals
      (URL_table [(''http://127.0.0.1:8000/api/deals'',
                   \<lparr>href = ''http://127.0.0.1:8000/api/deals'', searchParams = []\<rparr>)])
      (API_BASE None) (Some []) None (Inl TypeError :: unit settled)
    = (Some \<lparr>url = \<lparr>href = ''http://127.0.0.1:8000/api/deals'',
                     searchParams = [(''limit'', ''100''), (''sort'', ''hot'')]\<rparr>,
             cache = ''no-store''\<rparr>,
       Inl TypeError)
   \<and> fetchDeals (URL_table []) ''127.0.0.1:8000'' (Some ''toys'') None (Inl TypeError :: unit settled)
    = (None, Inl TypeError)"
  by (simp add: fetchDeals_def URL_table_def API_BASE_def Let_def)

text \<open>
  C8: for every asin, when the detail endpoint answers with a status that is not ok,
  \<open>fetchDeal\<close> throws \<^verbatim>\<open>Error("Failed to load deal")\<close>; and whenever \<open>fetchDeal\<close>
  returns data, the endpoint answered ok and the data is the parsed body of that answer.
\<close>

theorem fetchDeal_throws_unless_ok:
  "(settled = Inr res \<and> \<not> ok res
      \<longrightarrow> snd (fetchDeal base asin' settled) = Inl (Error ''Failed to load deal''))
   \<and> (snd (fetchDeal base asin' settled) = Inr d
      \<longrightarrow> (\<exists>res'. settled = Inr res' \<and> ok res' \<and> json res' = Inr d))"
  by (auto simp: fetchDeal_def split: sum.splits if_splits)

theorem fetchDeal_throws_unless_ok_witness:
  "snd (fetchDeal (API_BASE None) ''B000000000'' (Inr \<lparr>ok = False, json = Inr no_history_item\<rparr>))
     = Inl (Error ''Failed to load deal'')
   \<and> snd (fetchDeal (API_BASE None) ''B000000000'' (Inr \<lparr>ok = True, json = Inr no_history_item\<rparr>))
     = Inr no_history_item"
  using fetchDeal_throws_unless_ok [where settled = "Inr \<lparr>ok = False, json = Inr no_history_item\<rparr>"
          and res = "\<lparr>ok = False, json = Inr no_history_item\<rparr>" and base = "API_BASE None"
          and asin' = "''B000000000''" and d = no_history_item]
        fetchDeal_throws_unless_ok [where settled = "Inr \<lparr>ok = True, json = Inr no_history_item\<rparr>"
          and res = "\<lparr>ok = True, json = Inr no_history_item\<rparr>" and base = "API_BASE None"
          and asin' = "''B000000000''" and d = no_history_item]
  by (simp add: fetchDeal_def)

section \<open>Properties of the pages\<close>

subsection \<open>Guarded operands\<close>

lemma js_bind_return [simp]: "js_bind (Inr x, c) f = (fst (f x), c \<or> snd (f x))"
  by (simp add: js_bind_def)

lemma js_bind_throw [simp]: "js_bind (Inl e, c) f = (Inl e, c)"
  by (simp add: js_bind_def)

lemma nullish_Value [simp]:
  "nullish a (Value z) = Value (case a of Value x \<Rightarrow> x | Null \<Rightarrow> z | Undefined \<Rightarrow> z)"
  by (cases a) (simp_all add: nullish_def)

lemma Math_round_Value [simp]: "Math_round P (Value x) = (Inr (Math_round_of P x), False)"
  by (simp add: Math_round_def ToNumber_def js_return_def)

lemma js_times_Value [simp]:
  "js_times P (Value x) (Value y) = (Inr (multiply P x y), False)"
  by (simp add: js_times_def ToNumber_def js_return_def)

lemma toFixed_Value [simp]: "toFixed P f (Value x) = (Inr (toFixed_of P f x), False)"
  by (simp add: toFixed_def js_return_def)

lemma pct_clean: "\<exists>t. pct P x = (Inr t, False)"
  by (cases x) (simp_all add: pct_def is_nullish_def js_return_def)

lemma Page_row_clean: "\<exists>r. Page_row P d = (Inr r, False)"
proof -
  obtain t where "pct P (discount_pct_90d d) = (Inr t, False)"
    using pct_clean by blast
  then show ?thesis
    by (cases "demand_score d") (simp_all add: Page_row_def is_nullish_def js_return_def)
qed




lemma js_map_clean:
  assumes "\<And>x. \<exists>y. f x = (Inr y, False)"
  shows "\<exists>ys. js_map f xs = (Inr ys, False)"
proof (induction xs)
  case Nil
  then show ?case by (simp add: js_return_def)
next
  case (Cons x xs)
  obtain y where "f x = (Inr y, False)" using assms by blast
  moreover obtain ys where "js_map f xs = (Inr ys, False)" using Cons by blast
  ultimately show ?case by (simp add: js_return_def)
qed

text \<open>The record of an implicit conversion is not idle: an unguarded operand is recorded.\<close>

lemma unguarded_is_recorded:
  "implicit_conversion (Math_round P Null) \<and> implicit_conversion (js_times P Null (Value (hundred_lit P)))
   \<and> throws (toFixed P 2 Null)"
  by (simp add: implicit_conversion_def throws_def Math_round_def js_times_def ToNumber_def
        toFixed_def js_return_def js_throw_def)


text \<open>What the explicit default does: the top page shows an item without a hot score
  with its deal score, and an item without a current price as it shows a price of
  zero.\<close>

lemma Page_row_hot_fallback:
  "\<exists>r. Page_row P (d\<lparr>hot_score := Null\<rparr>) = (Inr r, False) \<and> row_hot r = row_deal r"
proof -
  obtain t where "pct P (discount_pct_90d d) = (Inr t, False)"
    using pct_clean by blast
  then show ?thesis
    by (cases "demand_score d") (simp_all add: Page_row_def is_nullish_def js_return_def)
qed

lemma Page_row_null_price:
  "Page_row P (d\<lparr>price_current := Null\<rparr>) = Page_row P (d\<lparr>price_current := Value (zero_lit P)\<rparr>)"
  by (simp add: Page_row_def)

subsection \<open>The ordering of the top page\<close>

lemma Page_fetch:
  "fst (Page P new_URL base searchParams' settled)
     = fst (fetchDeals new_URL base None (Some (Page_sort searchParams')) settled)"
  by (simp add: Page_def Let_def split_beta)

lemma Page_loaded:
  assumes "new_URL (base @ ''/api/deals'') = Inr u0" and "settled = Inr res" and "ok res"
    and "json res = Inr data"
  shows "\<exists>rendered. snd (Page P new_URL base searchParams' settled)
           = (Inr \<lparr>caption = (if Page_sort searchParams' = Hot
                                then ''Sorted by Hot Score (deal quality + demand).''
                                else ''Sorted by Deal Score (discount strength + price stability).''),
                   hot_weight = (if Page_sort searchParams' = Hot then 700 else 400),
                   deal_weight = (if Page_sort searchParams' = Deal then 700 else 400),
                   rows = rendered\<rparr>, False)"
proof -
  have "\<exists>ys. js_map (Page_row P) xs = (Inr ys, False)" for xs
    by (rule js_map_clean) (rule Page_row_clean)
  then obtain ys where
    "js_map (Page_row P) (case items data of Value xs \<Rightarrow> xs | Null \<Rightarrow> [] | Undefined \<Rightarrow> [])
       = (Inr ys, False)"
    by blast
  with assms show ?thesis
    by (simp add: Page_def fetchDeals_def Let_def js_return_def)
qed

lemma Page_rendered:
  assumes "snd (Page P new_URL base searchParams' settled) = (Inr v, c)"
  shows "caption v = (if Page_sort searchParams' = Hot
                      then ''Sorted by Hot Score (deal quality + demand).''
                      else ''Sorted by Deal Score (discount strength + price stability).'')
         \<and> hot_weight v = (if Page_sort searchParams' = Hot then 700 else 400)
         \<and> deal_weight v = (if Page_sort searchParams' = Deal then 700 else 400)"
proof (cases "snd (fetchDeals new_URL base None (Some (Page_sort searchParams')) settled)")
  case (Inl e)
  with assms show ?thesis by (simp add: Page_def Let_def split_beta js_throw_def)
next
  case (Inr data)
  have "\<exists>ys. js_map (Page_row P) xs = (Inr ys, False)" for xs
    by (rule js_map_clean) (rule Page_row_clean)
  then obtain ys where
    "js_map (Page_row P) (case items data of Value xs \<Rightarrow> xs | Null \<Rightarrow> [] | Undefined \<Rightarrow> [])
       = (Inr ys, False)"
    by blast
  with assms Inr show ?thesis
    by (auto simp: Page_def Let_def split_beta js_return_def)
qed

text \<open>
  C10: for every value of the top page's \<open>sort\<close> query parameter other than the exact
  string \<open>deal\<close>, its absence and the absence of all query parameters included, the
  request of the page asks for the \<open>hot\<close> ordering, and the page, which renders whenever
  the deals are loaded, captions and highlights the hot ordering; the exact string
  \<open>deal\<close> selects the deal ordering in the request, the caption and the highlight.
\<close>

theorem Page_sort_param:
  "(query_sort searchParams' \<noteq> Some ''deal''
      \<longrightarrow> (\<forall>u0. new_URL (base @ ''/api/deals'') = Inr u0
             \<longrightarrow> (\<exists>req. fst (Page P new_URL base searchParams' settled) = Some req
                    \<and> map_of (searchParams (url req)) ''sort'' = Some ''hot''))
        \<and> (\<forall>u0 res data. new_URL (base @ ''/api/deals'') = Inr u0 \<and> settled = Inr res \<and> ok res
                \<and> json res = Inr data
             \<longrightarrow> (\<exists>v. snd (Page P new_URL base searchParams' settled) = (Inr v, False)
                    \<and> caption v = ''Sorted by Hot Score (deal quality + demand).''
                    \<and> hot_weight v = 700 \<and> deal_weight v = 400))
        \<and> (\<forall>v c. snd (Page P new_URL base searchParams' settled) = (Inr v, c)
             \<longrightarrow> caption v = ''Sorted by Hot Score (deal quality + demand).''
               \<and> hot_weight v = 700 \<and> deal_weight v = 400))
   \<and> (query_sort searchParams' = Some ''deal''
      \<longrightarrow> (\<forall>u0. new_URL (base @ ''/api/deals'') = Inr u0
             \<longrightarrow> (\<exists>req. fst (Page P new_URL base searchParams' settled) = Some req
                    \<and> map_of (searchParams (url req)) ''sort'' = Some ''deal''))
        \<and> (\<forall>u0 res data. new_URL (base @ ''/api/deals'') = Inr u0 \<and> settled = Inr res \<and> ok res
                \<and> json res = Inr data
             \<longrightarrow> (\<exists>v. snd (Page P new_URL base searchParams' settled) = (Inr v, False)
                    \<and> caption v = ''Sorted by Deal Score (discount strength + price stability).''
                    \<and> hot_weight v = 400 \<and> deal_weight v = 700))
        \<and> (\<forall>v c. snd (Page P new_URL base searchParams' settled) = (Inr v, c)
             \<longrightarrow> caption v = ''Sorted by Deal Score (discount strength + price stability).''
               \<and> hot_weight v = 400 \<and> deal_weight v = 700))"
proof -
  have req: "\<exists>req. fst (Page P new_URL base searchParams' settled) = Some req
      \<and> map_of (searchParams (url req)) ''sort'' = Some (sort_str (Page_sort searchParams'))"
    if "new_URL (base @ ''/api/deals'') = Inr u0" for u0
    using that
    by (cases "Page_sort searchParams'")
       (auto simp: Page_fetch fetchDeals_def Let_def map_of_searchParams_set)
  show ?thesis
  proof (cases "query_sort searchParams' = Some ''deal''")
    case True
    then have s: "Page_sort searchParams' = Deal" by (simp add: Page_sort_def)
    from True show ?thesis
      using req Page_loaded [of new_URL base _ settled _ _ P searchParams']
        Page_rendered [of P new_URL base searchParams' settled]
      by (simp add: s) blast
  next
    case False
    then have s: "Page_sort searchParams' = Hot" by (simp add: Page_sort_def)
    from False show ?thesis
      using req Page_loaded [of new_URL base _ settled _ _ P searchParams']
        Page_rendered [of P new_URL base searchParams' settled]
      by (simp add: s) blast
  qed
qed

theorem Page_sort_param_witness:
  "\<forall>P. Page P
        (URL_table [(''http://127.0.0.1:8000/api/deals'',
                     \<lparr>href = ''http://127.0.0.1:8000/api/deals'', searchParams = []\<rparr>)])
        (API_BASE None) (Some \<lparr>sort_param = Some ''Deal''\<rparr>)
        (Inr \<lparr>ok = True, json = Inr \<lparr>items = Value [no_history_item]\<rparr>\<rparr>)
      = (Some \<lparr>url = \<lparr>href = ''http://127.0.0.1:8000/api/deals'',
                       searchParams = [(''limit'', ''100''), (''sort'', ''hot'')]\<rparr>,
               cache = ''no-store''\<rparr>,
         Inr \<lparr>caption = ''Sorted by Hot Score (deal quality + demand).'',
              hot_weight = 700, deal_weight = 400,
              rows = [\<lparr>row_hot = ToString_of P (Math_round_of P (zero_lit P)),
                       row_deal = ToString_of P (Math_round_of P (zero_lit P)),
                       row_demand = None,
                       row_now = toFixed_of P 2 (zero_lit P),
                       row_typical = toFixed_of P 2 (zero_lit P),
                       row_drop = ''-'',
                       row_confidence = ToString_of P (Math_round_of P (zero_lit P))\<rparr>]\<rparr>,
         False)
    \<and> Page P
        (URL_table [(''http://127.0.0.1:8000/api/deals'',
                     \<lparr>href = ''http://127.0.0.1:8000/api/deals'', searchParams = []\<rparr>)])
        (API_BASE None) (Some \<lparr>sort_param = Some ''deal''\<rparr>)
        (Inr \<lparr>ok = True, json = Inr \<lparr>items = Undefined\<rparr>\<rparr>)
      = (Some \<lparr>url = \<lparr>href = ''http://127.0.0.1:8000/api/deals'',
                       searchParams = [(''limit'', ''100''), (''sort'', ''deal'')]\<rparr>,
               cache = ''no-store''\<rparr>,
         Inr \<lparr>caption = ''Sorted by Deal Score (discount strength + price stability).'',
              hot_weight = 400, deal_weight = 700, rows = []\<rparr>,
         False)"
proof -
  let ?U = "URL_table [(''http://127.0.0.1:8000/api/deals'',
                     \<lparr>href = ''http://127.0.0.1:8000/api/deals'', searchParams = []\<rparr>)]"
  have hot: "Page P ?U (API_BASE None) (Some \<lparr>sort_param = Some ''Deal''\<rparr>)
        (Inr \<lparr>ok = True, json = Inr \<lparr>items = Value [no_history_item]\<rparr>\<rparr>)
      = (Some \<lparr>url = \<lparr>href = ''http://127.0.0.1:8000/api/deals'',
                       searchParams = [(''limit'', ''100''), (''sort'', ''hot'')]\<rparr>,
               cache = ''no-store''\<rparr>,
         Inr \<lparr>caption = ''Sorted by Hot Score (deal quality + demand).'',
              hot_weight = 700, deal_weight = 400,
              rows = [\<lparr>row_hot = ToString_of P (Math_round_of P (zero_lit P)),
                       row_deal = ToString_of P (Math_round_of P (zero_lit P)),
                       row_demand = None,
                       row_now = toFixed_of P 2 (zero_lit P),
                       row_typical = toFixed_of P 2 (zero_lit P),
                       row_drop = ''-'',
                       row_confidence = ToString_of P (Math_round_of P (zero_lit P))\<rparr>]\<rparr>,
         False)" for P :: "'n numbers"
    by (simp add: Page_def Page_sort_def query_sort_def fetchDeals_def URL_table_def API_BASE_def
          Let_def Page_row_def pct_def is_nullish_def no_history_item_def js_return_def)
  have deal: "Page P ?U (API_BASE None) (Some \<lparr>sort_param = Some ''deal''\<rparr>)
        (Inr \<lparr>ok = True, json = Inr \<lparr>items = Undefined\<rparr>\<rparr>)
      = (Some \<lparr>url = \<lparr>href = ''http://127.0.0.1:8000/api/deals'',
                       searchParams = [(''limit'', ''100''), (''sort'', ''deal'')]\<rparr>,
               cache = ''no-store''\<rparr>,
         Inr \<lparr>caption = ''Sorted by Deal Score (discount strength + price stability).'',
              hot_weight = 400, deal_weight = 700, rows = []\<rparr>,
         False)" for P :: "'n numbers"
    by (simp add: Page_def Page_sort_def query_sort_def fetchDeals_def URL_table_def API_BASE_def
          Let_def js_return_def)
  from Page_sort_param [where new_URL = ?U and base = "API_BASE None"
      and searchParams' = "Some \<lparr>sort_param = Some ''Deal''\<rparr>"
      and settled = "Inr \<lparr>ok = True, json = Inr \<lparr>items = Value [no_history_item]\<rparr>\<rparr>"]
    Page_sort_param [where new_URL = ?U and base = "API_BASE None"
      and searchParams' = "Some \<lparr>sort_param = Some ''deal''\<rparr>"
      and settled = "Inr \<lparr>ok = True, json = Inr \<lparr>items = Undefined\<rparr>\<rparr>"]
  show ?thesis
    by (simp only: hot deal simp_thms)
qed

section \<open>Properties of the Statistics Engine\<close>

subsection \<open>Order statistics of a sorted list\<close>

lemma length_filter_le_mono:
  "(\<And>x. x \<in> set xs \<Longrightarrow> P x \<Longrightarrow> Q x) \<Longrightarrow> length (filter P xs) \<le> length (filter Q xs)"
  by (induction xs) auto

lemma length_filter_sort: "length (filter P (sort xs)) = length (filter P xs)"
proof -
  have "mset (filter P (sort xs)) = mset (filter P xs)" by simp
  then show ?thesis by (metis size_mset)
qed

lemma sorted_count_below:
  assumes "sorted s" and "k < length s"
  shows "length (filter (\<lambda>x. x < s ! k) s) \<le> k"
proof -
  have "\<forall>x \<in> set (drop k s). s ! k \<le> x"
  proof
    fix x assume "x \<in> set (drop k s)"
    then obtain i where "i < length (drop k s)" and "x = drop k s ! i"
      by (auto simp: in_set_conv_nth)
    then have "x = s ! (k + i)" and "k + i < length s" using assms(2) by auto
    with assms(1) show "s ! k \<le> x" by (simp add: sorted_nth_mono)
  qed
  then have "filter (\<lambda>x. x < s ! k) (drop k s) = []"
    by (auto simp: filter_empty_conv)
  then have "filter (\<lambda>x. x < s ! k) s = filter (\<lambda>x. x < s ! k) (take k s)"
    by (metis append_Nil2 append_take_drop_id filter_append)
  moreover have "length (filter (\<lambda>x. x < s ! k) (take k s)) \<le> length (take k s)"
    by (rule length_filter_le)
  ultimately show ?thesis by simp
qed

lemma sorted_count_upto:
  assumes "sorted s" and "k < length s"
  shows "k < length (filter (\<lambda>x. x \<le> s ! k) s)"
proof -
  have "\<forall>x \<in> set (take (Suc k) s). x \<le> s ! k"
  proof
    fix x assume "x \<in> set (take (Suc k) s)"
    then obtain i where "i < length (take (Suc k) s)" and "x = take (Suc k) s ! i"
      by (auto simp: in_set_conv_nth)
    then have "x = s ! i" and "i \<le> k" by auto
    with assms show "x \<le> s ! k" by (simp add: sorted_nth_mono)
  qed
  then have "filter (\<lambda>x. x \<le> s ! k) (take (Suc k) s) = take (Suc k) s"
    by (simp add: filter_id_conv)
  moreover have "filter (\<lambda>x. x \<le> s ! k) s
      = filter (\<lambda>x. x \<le> s ! k) (take (Suc k) s) @ filter (\<lambda>x. x \<le> s ! k) (drop (Suc k) s)"
    by (metis append_take_drop_id filter_append)
  ultimately have "length (take (Suc k) s) \<le> length (filter (\<lambda>x. x \<le> s ! k) s)"
    by simp
  with assms(2) show ?thesis by simp
qed

lemma kth_smallest_sort:
  assumes "k < length xs"
  shows "kth_smallest xs k (sort xs ! k)"
proof -
  let ?s = "sort xs"
  have k: "k < length ?s" using assms by simp
  have "?s ! k \<in> set ?s" using k by (rule nth_mem)
  then have mem: "?s ! k \<in> set xs" by simp
  have "length (filter (\<lambda>x. x < ?s ! k) ?s) \<le> k"
    using sorted_count_below [OF sorted_sort k] .
  then have below: "length (filter (\<lambda>x. x < ?s ! k) xs) \<le> k"
    by (simp add: length_filter_sort)
  have "k < length (filter (\<lambda>x. x \<le> ?s ! k) ?s)"
    using sorted_count_upto [OF sorted_sort k] .
  then have upto: "k < length (filter (\<lambda>x. x \<le> ?s ! k) xs)"
    by (simp add: length_filter_sort)
  from mem below upto show ?thesis by (simp add: kth_smallest_def)
qed

lemma kth_smallest_le:
  assumes "kth_smallest xs k a" and "kth_smallest xs k b"
  shows "a \<le> b"
proof (rule ccontr)
  assume "\<not> a \<le> b"
  then have "b < a" by simp
  then have "length (filter (\<lambda>x. x \<le> b) xs) \<le> length (filter (\<lambda>x. x < a) xs)"
    by (intro length_filter_le_mono) simp
  moreover have "length (filter (\<lambda>x. x < a) xs) \<le> k" using assms(1) by (simp add: kth_smallest_def)
  moreover have "k < length (filter (\<lambda>x. x \<le> b) xs)" using assms(2) by (simp add: kth_smallest_def)
  ultimately show False by simp
qed

lemma kth_smallest_unique:
  "kth_smallest xs k a \<Longrightarrow> kth_smallest xs k b \<Longrightarrow> a = b"
  by (simp add: kth_smallest_le order_antisym)

lemma statistical_median_unique:
  "statistical_median xs m \<Longrightarrow> statistical_median xs m' \<Longrightarrow> m = m'"
  unfolding statistical_median_def by (metis kth_smallest_unique)

lemma median_is_statistical_median:
  assumes "xs \<noteq> []"
  shows "\<exists>m. median xs = Some m \<and> statistical_median xs m"
proof -
  let ?s = "sort xs" and ?n = "length xs"
  have n: "0 < ?n" using assms by simp
  have ne: "?s \<noteq> []" using assms by (metis length_0_conv length_sort)
  show ?thesis
  proof (cases "odd ?n")
    case True
    then have mid: "(?n - 1) div 2 = ?n div 2" by presburger
    have lt: "?n div 2 < ?n" using n by simp
    have "kth_smallest xs (?n div 2) (?s ! (?n div 2))" using lt by (rule kth_smallest_sort)
    then have "statistical_median xs (?s ! (?n div 2))"
      unfolding statistical_median_def mid by (intro exI [of _ "?s ! (?n div 2)"]) simp
    moreover have "median xs = Some (?s ! (?n div 2))" using True n ne by (simp add: median_def Let_def)
    ultimately show ?thesis by simp
  next
    case False
    then have mid: "(?n - 1) div 2 = ?n div 2 - 1" using n by presburger
    have lt: "?n div 2 < ?n" and lt': "?n div 2 - 1 < ?n" using n by arith+
    have "kth_smallest xs (?n div 2 - 1) (?s ! (?n div 2 - 1))" using lt' by (rule kth_smallest_sort)
    moreover have "kth_smallest xs (?n div 2) (?s ! (?n div 2))" using lt by (rule kth_smallest_sort)
    ultimately have "statistical_median xs ((?s ! (?n div 2 - 1) + ?s ! (?n div 2)) / 2)"
      unfolding statistical_median_def mid by blast
    moreover have "median xs = Some ((?s ! (?n div 2 - 1) + ?s ! (?n div 2)) / 2)"
      using False n ne by (simp add: median_def Let_def)
    ultimately show ?thesis by blast
  qed
qed

lemma median_mset: "mset xs = mset ys \<Longrightarrow> median xs = median ys"
proof -
  assume "mset xs = mset ys"
  then have "sort xs = sort ys"
    by (metis mset_sort properties_for_sort sorted_sort)
  then show ?thesis by (simp add: median_def Let_def)
qed

lemma inWindow_mset:
  "mset series' = mset series \<Longrightarrow> mset (inWindow cfg now series') = mset (inWindow cfg now series)"
  by (simp add: inWindow_def)

lemma windowMedian_mset:
  assumes "mset series' = mset series"
  shows "windowMedian cfg now series' = windowMedian cfg now series"
proof -
  have m: "mset (inWindow cfg now series') = mset (inWindow cfg now series)"
    using assms by (rule inWindow_mset)
  then have "length (inWindow cfg now series') = length (inWindow cfg now series)"
    by (metis size_mset)
  with median_mset [OF m] show ?thesis by (simp add: windowMedian_def Let_def)
qed

subsection \<open>The median of the trailing window\<close>

text \<open>
  C3: for every PriceSeries with at least 3 samples inside the trailing window (and a
  configured minimum sample count of at most 3), \<open>priceMedian90d\<close> is defined, it is the
  statistical median of the in-window samples, which is unique, and every rearrangement
  of the series yields the same value.
\<close>

theorem priceMedian90d_statistical_median:
  assumes "minSamples cfg \<le> 3" and "3 \<le> length (inWindow cfg now series)"
  shows "\<exists>m. priceMedian90d (statisticsEngine cfg now series) = Some m
           \<and> statistical_median (inWindow cfg now series) m
           \<and> (\<forall>m'. statistical_median (inWindow cfg now series) m' \<longrightarrow> m' = m)
           \<and> (\<forall>series'. mset series' = mset series
                 \<longrightarrow> priceMedian90d (statisticsEngine cfg now series') = Some m)"
proof -
  let ?w = "inWindow cfg now series"
  have "?w \<noteq> []" using assms(2) by auto
  then obtain m where m: "median ?w = Some m" and sm: "statistical_median ?w m"
    using median_is_statistical_median by blast
  have wm: "windowMedian cfg now series = Some m"
    using assms m by (simp add: windowMedian_def Let_def)
  then have "priceMedian90d (statisticsEngine cfg now series) = Some m"
    by (simp add: statisticsEngine_def Let_def)
  moreover have "\<forall>m'. statistical_median ?w m' \<longrightarrow> m' = m"
    using sm statistical_median_unique by blast
  moreover have "\<forall>series'. mset series' = mset series
      \<longrightarrow> priceMedian90d (statisticsEngine cfg now series') = Some m"
  proof (intro allI impI)
    fix series' :: PriceSeries
    assume "mset series' = mset series"
    then have "windowMedian cfg now series' = windowMedian cfg now series"
      by (rule windowMedian_mset)
    with wm show "priceMedian90d (statisticsEngine cfg now series') = Some m"
      by (simp add: statisticsEngine_def Let_def)
  qed
  ultimately show ?thesis using sm by blast
qed

theorem priceMedian90d_statistical_median_witness:
  "priceMedian90d (statisticsEngine \<lparr>windowLength = 90, minSamples = 3\<rparr> 90
       [(0, 100), (45, 80), (89, 60)]) = Some 80
   \<and> statistical_median (inWindow \<lparr>windowLength = 90, minSamples = 3\<rparr> 90
       [(0, 100), (45, 80), (89, 60)]) 80
   \<and> priceMedian90d (statisticsEngine \<lparr>windowLength = 90, minSamples = 3\<rparr> 90
       [(89, 60), (0, 100), (45, 80)]) = Some 80"
proof -
  let ?cfg = "\<lparr>windowLength = 90, minSamples = 3\<rparr>"
  let ?s = "[(0, 100), (45, 80), (89, 60)] :: PriceSeries"
  have h1: "minSamples ?cfg \<le> 3" by simp
  have h2: "3 \<le> length (inWindow ?cfg 90 ?s)" by (simp add: inWindow_def)
  from priceMedian90d_statistical_median [OF h1 h2]
  obtain m where m: "priceMedian90d (statisticsEngine ?cfg 90 ?s) = Some m"
    and sm: "statistical_median (inWindow ?cfg 90 ?s) m"
    and perm: "\<forall>series'. mset series' = mset ?s
                 \<longrightarrow> priceMedian90d (statisticsEngine ?cfg 90 series') = Some m"
    by blast
  have "priceMedian90d (statisticsEngine ?cfg 90 ?s) = Some 80"
    by (simp add: statisticsEngine_def windowMedian_def inWindow_def median_def Let_def)
  with m have "m = 80" by simp
  moreover have "mset [(89, 60), (0, 100), (45, 80)] = mset ?s" by (simp add: ac_simps)
  ultimately show ?thesis using m sm perm by blast
qed

subsection \<open>The discount against the median\<close>

lemma median_Nil: "median [] = None"
  by (simp add: median_def)

lemma windowMedian_latestPrice:
  assumes "windowMedian cfg now series = Some m"
  shows "\<exists>c. latestPrice series = Some c"
proof (cases series)
  case Nil
  then have "windowMedian cfg now series = None"
    by (simp add: windowMedian_def inWindow_def median_Nil Let_def)
  with assms show ?thesis by simp
next
  case (Cons smp rest)
  then show ?thesis by (simp add: latestPrice_def)
qed

text \<open>
  C2: in every record of the Statistics Engine, \<open>discountPct90d\<close> is \<^verbatim>\<open>null\<close> when
  \<open>priceMedian90d\<close> is \<^verbatim>\<open>null\<close> or not positive; otherwise the current price exists
  and \<open>discountPct90d\<close> is \<open>(priceMedian90d - priceCurrent) / priceMedian90d\<close> clamped to
  at most 1. The clamp changes nothing for a current price that is not negative, and the
  value is negative when the current price exceeds the median.
\<close>

theorem discountPct90d_formula:
  "case priceMedian90d (statisticsEngine cfg now series) of
     None \<Rightarrow> discountPct90d (statisticsEngine cfg now series) = None
   | Some m \<Rightarrow>
       if m \<le> 0 then discountPct90d (statisticsEngine cfg now series) = None
       else (\<exists>c. priceCurrent (statisticsEngine cfg now series) = Some c
              \<and> discountPct90d (statisticsEngine cfg now series) = Some (min 1 ((m - c) / m))
              \<and> (0 \<le> c \<longrightarrow> discountPct90d (statisticsEngine cfg now series) = Some ((m - c) / m))
              \<and> (m < c \<longrightarrow> (m - c) / m < 0))"
proof (cases "windowMedian cfg now series")
  case None
  then show ?thesis by (simp add: statisticsEngine_def Let_def discount_def)
next
  case (Some m)
  then obtain c where c: "latestPrice series = Some c"
    using windowMedian_latestPrice by blast
  show ?thesis
  proof (cases "m \<le> 0")
    case True
    with Some show ?thesis by (simp add: statisticsEngine_def Let_def discount_def)
  next
    case False
    then have pos: "0 < m" by simp
    have clamp: "0 \<le> c \<Longrightarrow> min 1 ((m - c) / m) = (m - c) / m"
      using pos by (simp add: min_def field_simps)
    have neg: "m < c \<Longrightarrow> (m - c) / m < 0"
      using pos by (simp add: field_simps)
    from Some c False clamp neg show ?thesis
      by (simp add: statisticsEngine_def Let_def discount_def)
  qed
qed

theorem discountPct90d_formula_witness:
  "discountPct90d (statisticsEngine \<lparr>windowLength = 90, minSamples = 3\<rparr> 90
       [(0, 100), (45, 80), (89, 60)]) = Some (1 / 4)
   \<and> discountPct90d (statisticsEngine \<lparr>windowLength = 90, minSamples = 3\<rparr> 90
       [(0, 60), (45, 80), (89, 100)]) = Some (- (1 / 4))
   \<and> discountPct90d (statisticsEngine \<lparr>windowLength = 90, minSamples = 3\<rparr> 90
       [(0, - 1), (45, - 1), (89, 20)]) = None
   \<and> discountPct90d (statisticsEngine \<lparr>windowLength = 90, minSamples = 3\<rparr> 90 []) = None"
  using discountPct90d_formula [of "\<lparr>windowLength = 90, minSamples = 3\<rparr>" 90 "[(0, 100), (45, 80), (89, 60)]"]
        discountPct90d_formula [of "\<lparr>windowLength = 90, minSamples = 3\<rparr>" 90 "[(0, 60), (45, 80), (89, 100)]"]
        discountPct90d_formula [of "\<lparr>windowLength = 90, minSamples = 3\<rparr>" 90 "[(0, - 1), (45, - 1), (89, 20)]"]
        discountPct90d_formula [of "\<lparr>windowLength = 90, minSamples = 3\<rparr>" 90 "[]"]
  by (simp add: statisticsEngine_def windowMedian_def inWindow_def median_def latestPrice_def
        discount_def Let_def)

section \<open>Properties of the Score Composer\<close>

text \<open>
  C5: for every input whose \<open>demandScore\<close> is \<^verbatim>\<open>null\<close>, the \<open>hotScore\<close> of the Score
  Composer equals its \<open>score\<close>, so that two such records compare by \<open>hotScore\<close> as they
  compare by \<open>score\<close>.
\<close>

theorem hotScore_without_demand:
  "snd (scoreComposer cfg d st c None) = fst (scoreComposer cfg d st c None)
   \<and> ((snd (scoreComposer cfg d st c None) \<le> snd (scoreComposer cfg d' st' c' None))
        = (fst (scoreComposer cfg d st c None) \<le> fst (scoreComposer cfg d' st' c' None)))"
  by (simp add: scoreComposer_def Let_def)

section \<open>Properties of the Snapshot Writer\<close>

lemma transaction_nonempty: "fst (transaction ws fault st) \<noteq> []"
  by (induction ws fault st rule: transaction.induct) (simp_all add: Let_def split_beta)

lemma transaction_failed_iff:
  "snd (transaction ws fault st) \<longleftrightarrow> (\<exists>k. fault = Some k \<and> k \<le> length ws)"
  by (induction ws fault st rule: transaction.induct) (simp_all add: Let_def split_beta)

lemma transaction_failed_committed:
  "snd (transaction ws fault st) \<Longrightarrow> s \<in> set (fst (transaction ws fault st))
     \<Longrightarrow> committed s = committed st"
  by (induction ws fault st rule: transaction.induct)
     (auto simp: Let_def rollback_def split_beta)

lemma transaction_committed:
  "s \<in> set (fst (transaction ws fault st))
     \<Longrightarrow> committed s = committed st \<or> committed s = fold apply_write ws (working st)"
  by (induction ws fault st rule: transaction.induct)
     (auto simp: Let_def rollback_def complete_def split_beta)

lemma transaction_completed_last:
  "\<not> snd (transaction ws fault st)
     \<Longrightarrow> committed (last (fst (transaction ws fault st))) = fold apply_write ws (working st)"
  by (induction ws fault st rule: transaction.induct)
     (simp_all add: Let_def complete_def transaction_nonempty split_beta)

lemma transaction_failed_last:
  assumes "snd (transaction ws fault st)"
  shows "committed (last (fst (transaction ws fault st))) = committed st"
proof -
  have "last (fst (transaction ws fault st)) \<in> set (fst (transaction ws fault st))"
    using transaction_nonempty by (rule last_in_set)
  with assms show ?thesis by (rule transaction_failed_committed)
qed

text \<open>
  C1: the commit of the Snapshot Writer fails exactly when a failure is injected before
  one of its steps. When it fails, the committed table, and with it the set of active
  records, is the one from before the cycle, and so is the active set that a reader meets
  at every point of the commit. When it succeeds, the committed table is the complete new
  generation. In either case a reader meets only the table from before the cycle or the
  complete new generation, never a table with some of the writes.
\<close>

theorem snapshotWriter_atomic:
  "case snapshotWriter purge new fault table of
     (res, table', trace) \<Rightarrow>
       (res = Inl CommitFailure \<longleftrightarrow> (\<exists>k. fault = Some k \<and> k \<le> length (cycle_writes purge table new)))
     \<and> (res = Inl CommitFailure
          \<longrightarrow> table' = table \<and> activeSet table' = activeSet table
            \<and> (\<forall>st \<in> set trace. read_active st = activeSet table))
     \<and> (res = Inr () \<longrightarrow> table' = new_generation purge new table)
     \<and> (\<forall>st \<in> set trace. committed st = table \<or> committed st = new_generation purge new table)"
proof -
  let ?ws = "cycle_writes purge table new"
  let ?st0 = "\<lparr>committed = table, working = table\<rparr>"
  obtain trace failed where tx: "transaction ?ws fault ?st0 = (trace, failed)"
    by (cases "transaction ?ws fault ?st0")
  have failed: "failed \<longleftrightarrow> (\<exists>k. fault = Some k \<and> k \<le> length ?ws)"
    using transaction_failed_iff [of ?ws fault ?st0] tx by simp
  have rolled: "failed \<Longrightarrow> committed (last trace) = table"
    using transaction_failed_last [of ?ws fault ?st0] tx by simp
  have same: "failed \<Longrightarrow> \<forall>st \<in> set trace. committed st = table"
    using transaction_failed_committed [of ?ws fault ?st0] tx by simp
  have completed: "\<not> failed \<Longrightarrow> committed (last trace) = new_generation purge new table"
    using transaction_completed_last [of ?ws fault ?st0] tx by (simp add: new_generation_def)
  have either: "\<forall>st \<in> set trace. committed st = table \<or> committed st = new_generation purge new table"
    using transaction_committed [of _ ?ws fault ?st0] tx by (auto simp: new_generation_def)
  from failed rolled same completed either show ?thesis
    by (auto simp: snapshotWriter_def Let_def tx read_active_def)
qed

theorem snapshotWriter_atomic_witness:
  "fst (snapshotWriter False
        [\<lparr>recAsin = ''A'', recCategory = ''home'', recValues = (2::nat), isActive = False\<rparr>]
        (Some 1)
        [\<lparr>recAsin = ''A'', recCategory = ''home'', recValues = 1, isActive = True\<rparr>,
         \<lparr>recAsin = ''B'', recCategory = ''home'', recValues = 1, isActive = True\<rparr>])
     = Inl CommitFailure
   \<and> fst (snd (snapshotWriter False
        [\<lparr>recAsin = ''A'', recCategory = ''home'', recValues = (2::nat), isActive = False\<rparr>]
        (Some 1)
        [\<lparr>recAsin = ''A'', recCategory = ''home'', recValues = 1, isActive = True\<rparr>,
         \<lparr>recAsin = ''B'', recCategory = ''home'', recValues = 1, isActive = True\<rparr>]))
     = [\<lparr>recAsin = ''A'', recCategory = ''home'', recValues = 1, isActive = True\<rparr>,
        \<lparr>recAsin = ''B'', recCategory = ''home'', recValues = 1, isActive = True\<rparr>]
   \<and> working (snd (snd (snapshotWriter False
        [\<lparr>recAsin = ''A'', recCategory = ''home'', recValues = (2::nat), isActive = False\<rparr>]
        (Some 1)
        [\<lparr>recAsin = ''A'', recCategory = ''home'', recValues = 1, isActive = True\<rparr>,
         \<lparr>recAsin = ''B'', recCategory = ''home'', recValues = 1, isActive = True\<rparr>])) ! 1)
     = [\<lparr>recAsin = ''A'', recCategory = ''home'', recValues = 1, isActive = True\<rparr>,
        \<lparr>recAsin = ''B'', recCategory = ''home'', recValues = 1, isActive = False\<rparr>]
   \<and> fst (snapshotWriter False
        [\<lparr>recAsin = ''A'', recCategory = ''home'', recValues = (2::nat), isActive = False\<rparr>]
        None
        [\<lparr>recAsin = ''A'', recCategory = ''home'', recValues = 1, isActive = True\<rparr>,
         \<lparr>recAsin = ''B'', recCategory = ''home'', recValues = 1, isActive = True\<rparr>])
     = Inr ()
   \<and> fst (snd (snapshotWriter False
        [\<lparr>recAsin = ''A'', recCategory = ''home'', recValues = (2::nat), isActive = False\<rparr>]
        None
        [\<lparr>recAsin = ''A'', recCategory = ''home'', recValues = 1, isActive = True\<rparr>,
         \<lparr>recAsin = ''B'', recCategory = ''home'', recValues = 1, isActive = True\<rparr>]))
     = [\<lparr>recAsin = ''A'', recCategory = ''home'', recValues = 1, isActive = False\<rparr>,
        \<lparr>recAsin = ''B'', recCategory = ''home'', recValues = 1, isActive = False\<rparr>,
        \<lparr>recAsin = ''A'', recCategory = ''home'', recValues = 2, isActive = True\<rparr>]"
  using snapshotWriter_atomic [where purge = False
        and new = "[\<lparr>recAsin = ''A'', recCategory = ''home'', recValues = (2::nat), isActive = False\<rparr>]"
        and fault = "Some 1"
        and table = "[\<lparr>recAsin = ''A'', recCategory = ''home'', recValues = 1, isActive = True\<rparr>,
         \<lparr>recAsin = ''B'', recCategory = ''home'', recValues = 1, isActive = True\<rparr>]"]
      snapshotWriter_atomic [where purge = False
        and new = "[\<lparr>recAsin = ''A'', recCategory = ''home'', recValues = (2::nat), isActive = False\<rparr>]"
        and fault = None
        and table = "[\<lparr>recAsin = ''A'', recCategory = ''home'', recValues = 1, isActive = True\<rparr>,
         \<lparr>recAsin = ''B'', recCategory = ''home'', recValues = 1, isActive = True\<rparr>]"]
  by (simp add: snapshotWriter_def cycle_writes_def recKey_def Let_def rollback_def complete_def)

end
